theory Spec2Isabelle
  imports Main "HOL-Library.Word" "HOL-Library.AList"
begin

unbundle bit_operations_syntax

section \<open>Go values shared by both inputs\<close>

text \<open>
  A \<open>float64\<close> is its IEEE-754 binary64 bit pattern, a \<open>uint64\<close> a 64-bit word.
  \<open>math.IsNaN\<close> is \<open>f != f\<close>, which holds exactly for the patterns whose exponent
  field is all ones and whose fraction is not zero, that is, whose magnitude bits lie
  above those of infinity.
\<close>

type_synonym float64 = "64 word"
type_synonym uint64 = "64 word"

definition IsNaN :: "float64 \<Rightarrow> bool" where
  "IsNaN f = (0x7FF0000000000000 < (f AND 0x7FFFFFFFFFFFFFFF))"

text \<open>
  \<open>bits.Len64\<close>: the number of bits needed to write \<open>n\<close>, counted as the number
  of powers of two up to \<open>n\<close>.
\<close>

definition bitlen :: "nat \<Rightarrow> nat" where
  "bitlen n = length (filter (\<lambda>i. 2 ^ i \<le> n) [0..<64])"

text \<open>
  The conversion \<open>float64(n)\<close> of an unsigned 64-bit integer: exact below \<open>2^53\<close>,
  rounded to nearest, ties to even, above. The rounded significand is added to the
  shifted exponent, so a carry out of the significand moves into the exponent.
\<close>

definition float64_of_uint64 :: "uint64 \<Rightarrow> float64" where
  "float64_of_uint64 w =
     (let n = unat w in
      if n = 0 then 0
      else
        let k = bitlen n - 1 in
        if k \<le> 52 then of_nat ((1023 + k) * 2 ^ 52 + (n * 2 ^ (52 - k) - 2 ^ 52))
        else
          let sh = k - 52;
              q = n div 2 ^ sh;
              r = n mod 2 ^ sh;
              half = 2 ^ (sh - 1);
              q' = (if half < r \<or> (r = half \<and> odd q) then q + 1 else q)
          in of_nat ((1023 + k) * 2 ^ 52 + (q' - 2 ^ 52)))"

text \<open>\<open>strings.HasPrefix(s, prefix)\<close>.\<close>

definition HasPrefix :: "string \<Rightarrow> string \<Rightarrow> bool" where
  "HasPrefix s p = (length p \<le> length s \<and> take (length p) s = p)"

text \<open>
  A Go \<open>map[string]T\<close>, as the list of its entries in one iteration order. Keys are
  unique; \<open>m[k] = v\<close> is \<open>AList.update k v m\<close> and a lookup is \<open>map_of m k\<close>.
\<close>

type_synonym 'v gomap = "(string \<times> 'v) list"

section \<open>The mtail input\<close>

subsection \<open>Upstream metrics (package dto of the Prometheus client model)\<close>

text \<open>
  The structs of the protocol-buffer model: every scalar field is a pointer, here an
  option, and every getter returns the zero value on a nil receiver or a nil field.
  The elements of the repeated fields (quantiles, buckets, the metrics of a family) are
  the structs themselves: the registry hands out no nil element.
\<close>

record dto_Gauge =
  Gauge_Value :: "float64 option"

record dto_Counter =
  Counter_Value :: "float64 option"

record dto_Untyped =
  Untyped_Value :: "float64 option"

record dto_Quantile =
  Quantile_Quantile :: "float64 option"
  Quantile_Value :: "float64 option"

record dto_Summary =
  Summary_SampleCount :: "uint64 option"
  Summary_SampleSum :: "float64 option"
  Summary_Quantile :: "dto_Quantile list"

record dto_Bucket =
  Bucket_CumulativeCount :: "uint64 option"
  Bucket_UpperBound :: "float64 option"

record dto_Histogram =
  Histogram_SampleCount :: "uint64 option"
  Histogram_SampleSum :: "float64 option"
  Histogram_Bucket :: "dto_Bucket list"

record dto_Metric =
  Gauge :: "dto_Gauge option"
  Counter :: "dto_Counter option"
  Summary :: "dto_Summary option"
  Untyped :: "dto_Untyped option"
  Histogram :: "dto_Histogram option"

text \<open>\<open>dto.MetricType\<close> is an \<open>int32\<close> enumeration; any other number is an unknown kind.\<close>

type_synonym MetricType = int

definition MetricType_COUNTER :: MetricType where "MetricType_COUNTER = 0"
definition MetricType_GAUGE :: MetricType where "MetricType_GAUGE = 1"
definition MetricType_SUMMARY :: MetricType where "MetricType_SUMMARY = 2"
definition MetricType_UNTYPED :: MetricType where "MetricType_UNTYPED = 3"
definition MetricType_HISTOGRAM :: MetricType where "MetricType_HISTOGRAM = 4"

record dto_MetricFamily =
  Name :: "string option"
  Type :: "MetricType option"
  Metric :: "dto_Metric list"

definition GetName :: "dto_MetricFamily \<Rightarrow> string" where
  "GetName mf = (case Name mf of None \<Rightarrow> [] | Some n \<Rightarrow> n)"

definition GetType :: "dto_MetricFamily \<Rightarrow> MetricType" where
  "GetType mf = (case Type mf of None \<Rightarrow> MetricType_COUNTER | Some t \<Rightarrow> t)"

definition Gauge_GetValue :: "dto_Gauge option \<Rightarrow> float64" where
  "Gauge_GetValue g =
     (case g of None \<Rightarrow> 0 | Some x \<Rightarrow> (case Gauge_Value x of None \<Rightarrow> 0 | Some v \<Rightarrow> v))"

definition Counter_GetValue :: "dto_Counter option \<Rightarrow> float64" where
  "Counter_GetValue c =
     (case c of None \<Rightarrow> 0 | Some x \<Rightarrow> (case Counter_Value x of None \<Rightarrow> 0 | Some v \<Rightarrow> v))"

definition Untyped_GetValue :: "dto_Untyped option \<Rightarrow> float64" where
  "Untyped_GetValue u =
     (case u of None \<Rightarrow> 0 | Some x \<Rightarrow> (case Untyped_Value x of None \<Rightarrow> 0 | Some v \<Rightarrow> v))"

definition Quantile_GetQuantile :: "dto_Quantile \<Rightarrow> float64" where
  "Quantile_GetQuantile q = (case Quantile_Quantile q of None \<Rightarrow> 0 | Some v \<Rightarrow> v)"

definition Quantile_GetValue :: "dto_Quantile \<Rightarrow> float64" where
  "Quantile_GetValue q = (case Quantile_Value q of None \<Rightarrow> 0 | Some v \<Rightarrow> v)"

definition Summary_GetSampleCount :: "dto_Summary option \<Rightarrow> uint64" where
  "Summary_GetSampleCount s =
     (case s of None \<Rightarrow> 0 | Some x \<Rightarrow> (case Summary_SampleCount x of None \<Rightarrow> 0 | Some v \<Rightarrow> v))"

definition Summary_GetSampleSum :: "dto_Summary option \<Rightarrow> float64" where
  "Summary_GetSampleSum s =
     (case s of None \<Rightarrow> 0 | Some x \<Rightarrow> (case Summary_SampleSum x of None \<Rightarrow> 0 | Some v \<Rightarrow> v))"

definition Histogram_GetSampleCount :: "dto_Histogram option \<Rightarrow> uint64" where
  "Histogram_GetSampleCount s =
     (case s of None \<Rightarrow> 0 | Some x \<Rightarrow> (case Histogram_SampleCount x of None \<Rightarrow> 0 | Some v \<Rightarrow> v))"

definition Histogram_GetSampleSum :: "dto_Histogram option \<Rightarrow> float64" where
  "Histogram_GetSampleSum s =
     (case s of None \<Rightarrow> 0 | Some x \<Rightarrow> (case Histogram_SampleSum x of None \<Rightarrow> 0 | Some v \<Rightarrow> v))"

definition Bucket_GetUpperBound :: "dto_Bucket \<Rightarrow> float64" where
  "Bucket_GetUpperBound b = (case Bucket_UpperBound b of None \<Rightarrow> 0 | Some v \<Rightarrow> v)"

definition Bucket_GetCumulativeCount :: "dto_Bucket \<Rightarrow> uint64" where
  "Bucket_GetCumulativeCount b = (case Bucket_CumulativeCount b of None \<Rightarrow> 0 | Some v \<Rightarrow> v)"

subsection \<open>Samples, the sample list and the name composer\<close>

text \<open>
  Modelled from the spec: the types \<open>types.Sample\<close> and \<open>types.SampleList\<close> and the
  functions \<open>types.NewSample\<close>, \<open>SampleList.PushFront\<close> and \<open>prom.BuildMetric\<close> belong to
  other packages of this repository (\<open>types\<close> and \<open>pkg/prom\<close>), whose code is missing
  from the sources of the two inputs. The specification gives a
  sample a name, a 64-bit float value and a tag mapping with unique keys (its timestamp
  is the moment of emission and is left out); the tags are a layered overwrite, each
  later tag map overwriting the keys of the earlier ones; the sink takes one sample per
  push; and a composed name is the prefix, the name and, when a suffix is present, the
  literal \<open>_\<close> and the suffix. Whether the prefix is prepended is decided by the callers
  (their \<open>HasPrefix\<close> test, modelled below from the source), which hand over the empty
  prefix otherwise. An empty suffix, as in the call of \<open>handleGaugeCounter\<close>, and a
  missing one, as in the quantile call of \<open>HandleSummary\<close>, are both no suffix. Every
  call of \<open>NewSample\<close> in the source passes the empty string first; that argument is
  kept for the shape of the call and the model is that of the empty string.
\<close>

record Sample =
  sample_name :: string
  sample_value :: float64
  sample_tags :: "string \<rightharpoonup> string"

definition BuildMetric :: "string \<Rightarrow> string \<Rightarrow> string \<Rightarrow> string" where
  "BuildMetric prefix name suffix =
     prefix @ name @ (if suffix = [] then [] else ''_'' @ suffix)"

definition NewSample :: "string \<Rightarrow> string \<Rightarrow> float64 \<Rightarrow> string gomap list \<Rightarrow> Sample" where
  "NewSample prefix metric v labels =
     \<lparr>sample_name = metric, sample_value = v,
      sample_tags = foldl (\<lambda>acc m. acc ++ map_of m) Map.empty labels\<rparr>"

definition PushFront :: "Sample \<Rightarrow> Sample list \<Rightarrow> Sample list" where
  "PushFront s slist = s # slist"

subsection \<open>The flattening strategies\<close>

text \<open>
  The fields of the instance that the strategies read. \<open>Labels\<close> (of the embedded
  \<open>config.InstanceConfig\<close>) is a Go map, a reference: here the address of a map
  object in the heap below, or \<open>None\<close> for the nil map.
\<close>

record mtail_Instance =
  NamePrefix :: string
  Labels :: "nat option"

text \<open>
  A call either returns or panics; both carry the state as the call left it, since the
  sample list is shared and keeps what was pushed before a panic.
\<close>

datatype 'a outcome = Returns (state_of: 'a) | Panics (state_of: 'a)

text \<open>
  \<open>getNameAndValue\<close>: the map of at most one field, filled from the first of gauge,
  counter and untyped that is present, unless its value is NaN.
\<close>

definition getNameAndValue :: "dto_Metric \<Rightarrow> string \<Rightarrow> float64 gomap" where
  "getNameAndValue m metricName =
     (let fields = [] in
      if Gauge m \<noteq> None then
        (if \<not> IsNaN (Gauge_GetValue (Gauge m))
         then AList.update metricName (Gauge_GetValue (Gauge m)) fields else fields)
      else if Counter m \<noteq> None then
        (if \<not> IsNaN (Counter_GetValue (Counter m))
         then AList.update metricName (Counter_GetValue (Counter m)) fields else fields)
      else if Untyped m \<noteq> None then
        (if \<not> IsNaN (Untyped_GetValue (Untyped m))
         then AList.update metricName (Untyped_GetValue (Untyped m)) fields else fields)
      else fields)"

definition handleGaugeCounter ::
  "mtail_Instance \<Rightarrow> dto_Metric \<Rightarrow> string gomap \<Rightarrow> string \<Rightarrow> Sample list \<Rightarrow> Sample list" where
  "handleGaugeCounter p m tags metricName slist =
     fold (\<lambda>(metric, v) sl.
             if \<not> HasPrefix metric (NamePrefix p)
             then PushFront (NewSample [] (BuildMetric (NamePrefix p) metric []) v [tags]) sl
             else PushFront (NewSample [] (BuildMetric [] metric []) v [tags]) sl)
          (getNameAndValue m metricName) slist"

text \<open>
  \<open>HandleSummary\<close> and \<open>HandleHistogram\<close> read the count and the sum through
  nil-safe getters, then read the field \<open>Quantile\<close> respectively \<open>Bucket\<close> of
  \<open>m.GetSummary()\<close> respectively \<open>m.GetHistogram()\<close> directly: on a metric without
  that payload this is a nil dereference, after the first pushes. \<open>Sprint\<close> is
  \<open>fmt.Sprint\<close> on a \<open>float64\<close>, a function of the Go library taken as a parameter.
\<close>

definition HandleSummary ::
  "(float64 \<Rightarrow> string) \<Rightarrow> mtail_Instance \<Rightarrow> dto_Metric \<Rightarrow> string gomap \<Rightarrow> string
     \<Rightarrow> Sample list \<Rightarrow> Sample list outcome" where
  "HandleSummary Sprint p m tags metricName slist =
     (let namePrefix = (if \<not> HasPrefix metricName (NamePrefix p) then NamePrefix p else []);
          slist = PushFront (NewSample [] (BuildMetric namePrefix metricName ''count'')
                    (float64_of_uint64 (Summary_GetSampleCount (Summary m))) [tags]) slist;
          slist = PushFront (NewSample [] (BuildMetric namePrefix metricName ''sum'')
                    (Summary_GetSampleSum (Summary m)) [tags]) slist
      in case Summary m of
           None \<Rightarrow> Panics slist
         | Some s \<Rightarrow>
             Returns (fold (\<lambda>q sl. PushFront (NewSample [] (BuildMetric namePrefix metricName [])
                                     (Quantile_GetValue q)
                                     [tags, [(''quantile'', Sprint (Quantile_GetQuantile q))]]) sl)
                        (Summary_Quantile s) slist))"

definition HandleHistogram ::
  "(float64 \<Rightarrow> string) \<Rightarrow> mtail_Instance \<Rightarrow> dto_Metric \<Rightarrow> string gomap \<Rightarrow> string
     \<Rightarrow> Sample list \<Rightarrow> Sample list outcome" where
  "HandleHistogram Sprint p m tags metricName slist =
     (let namePrefix = (if \<not> HasPrefix metricName (NamePrefix p) then NamePrefix p else []);
          slist = PushFront (NewSample [] (BuildMetric namePrefix metricName ''count'')
                    (float64_of_uint64 (Histogram_GetSampleCount (Histogram m))) [tags]) slist;
          slist = PushFront (NewSample [] (BuildMetric namePrefix metricName ''sum'')
                    (Histogram_GetSampleSum (Histogram m)) [tags]) slist;
          slist = PushFront (NewSample [] (BuildMetric namePrefix metricName ''bucket'')
                    (float64_of_uint64 (Histogram_GetSampleCount (Histogram m)))
                    [tags, [(''le'', ''+Inf'')]]) slist
      in case Histogram m of
           None \<Rightarrow> Panics slist
         | Some hg \<Rightarrow>
             Returns (fold (\<lambda>b sl.
                              let le = Sprint (Bucket_GetUpperBound b);
                                  v = float64_of_uint64 (Bucket_GetCumulativeCount b)
                              in PushFront (NewSample [] (BuildMetric namePrefix metricName ''bucket'')
                                     v [tags, [(''le'', le)]]) sl)
                        (Histogram_Bucket hg) slist))"

subsection \<open>The heap of tag maps and \<open>makeLabels\<close>\<close>

text \<open>
  Go maps are references. The heap is the list of the map objects allocated so far, an
  address is an index into it, and \<open>make\<close> or a map literal allocates at the end. A Go
  program holds no address beyond the heap; reading one here finds no entries, as
  reading the nil map does, and writing to one changes nothing.
\<close>

type_synonym heap = "string gomap list"

definition deref :: "heap \<Rightarrow> nat option \<Rightarrow> string gomap" where
  "deref h a = (case a of None \<Rightarrow> [] | Some i \<Rightarrow> if i < length h then h ! i else [])"

definition mapassign :: "heap \<Rightarrow> nat \<Rightarrow> string \<Rightarrow> string \<Rightarrow> heap" where
  "mapassign h a k v = (if a < length h then h[a := AList.update k v (h ! a)] else h)"

definition makeLabels :: "mtail_Instance \<Rightarrow> dto_Metric \<Rightarrow> heap \<Rightarrow> nat \<times> heap" where
  "makeLabels p m h =
     (let result = length h;
          h = h @ [[]];
          h = fold (\<lambda>(key, v) h. mapassign h result key v) (deref h (Labels p)) h
      in (result, h))"

subsection \<open>Gather: the classifier\<close>

datatype error = Error string

text \<open>The choice of the strategy for one metric of a family of kind \<open>t\<close>.\<close>

definition dispatch ::
  "(float64 \<Rightarrow> string) \<Rightarrow> mtail_Instance \<Rightarrow> MetricType \<Rightarrow> dto_Metric \<Rightarrow> string gomap
     \<Rightarrow> string \<Rightarrow> Sample list \<Rightarrow> Sample list outcome" where
  "dispatch Sprint ins t m tags metricName slist =
     (if t = MetricType_SUMMARY then HandleSummary Sprint ins m tags metricName slist
      else if t = MetricType_HISTOGRAM then HandleHistogram Sprint ins m tags metricName slist
      else Returns (handleGaugeCounter ins m tags metricName slist))"

text \<open>A \<open>for\<close> loop whose body may panic: the panic ends the loop.\<close>

fun forEach :: "('a \<Rightarrow> 's \<Rightarrow> 's outcome) \<Rightarrow> 'a list \<Rightarrow> 's \<Rightarrow> 's outcome" where
  "forEach body [] s = Returns s"
| "forEach body (x # xs) s =
     (case body x s of Panics s' \<Rightarrow> Panics s' | Returns s' \<Rightarrow> forEach body xs s')"

text \<open>
  \<open>Gather\<close> of the mtail instance. \<open>gathered\<close> is what the registry's transactional
  gatherer returned: the families or an error, on which \<open>Gather\<close> returns at once.
  The state is the heap and the sample list.
\<close>

definition gather_metric ::
  "(float64 \<Rightarrow> string) \<Rightarrow> mtail_Instance \<Rightarrow> dto_MetricFamily \<Rightarrow> dto_Metric
     \<Rightarrow> heap \<times> Sample list \<Rightarrow> (heap \<times> Sample list) outcome" where
  "gather_metric Sprint ins mf m st =
     (let metricName = GetName mf;
          (tags, h) = makeLabels ins m (fst st)
      in case dispatch Sprint ins (GetType mf) m (deref h (Some tags)) metricName (snd st) of
           Returns slist \<Rightarrow> Returns (h, slist)
         | Panics slist \<Rightarrow> Panics (h, slist))"

definition mtail_Gather ::
  "(float64 \<Rightarrow> string) \<Rightarrow> mtail_Instance \<Rightarrow> error + dto_MetricFamily list
     \<Rightarrow> heap \<times> Sample list \<Rightarrow> (heap \<times> Sample list) outcome" where
  "mtail_Gather Sprint ins gathered st =
     (case gathered of
        Inl err \<Rightarrow> Returns st
      | Inr mfs \<Rightarrow>
          forEach (\<lambda>mf. forEach (gather_metric Sprint ins mf) (Metric mf)) mfs st)"


text \<open>
  A table standing in for \<open>fmt.Sprint\<close> in the worked examples: it prints the floats
  0.1, 0.5 and 0.99 as Go does, and is used at no other value.
\<close>

definition Sprint_example :: "float64 \<Rightarrow> string" where
  "Sprint_example f =
     (if f = 0x3FB999999999999A then ''0.1''
      else if f = 0x3FE0000000000000 then ''0.5''
      else if f = 0x3FEFAE147AE147AE then ''0.99''
      else [])"

section \<open>The github input\<close>

subsection \<open>The API client and the world a tick acts on\<close>

text \<open>
  The client library (package \<open>githubLib\<close>) is outside the repository. Its constructors
  and its two requests are parameters: what a request answers may depend on every
  request sent before it, by any task. \<open>httpClient\<close> is the plain transport,
  \<open>oauthClient\<close> the one that carries the access token.
\<close>

datatype httpClient = httpClient | oauthClient string

datatype call = GetRepository string string | SearchIssues string

text \<open>The getters of \<open>githubLib.Repository\<close> that the input reads, all nil-safe.\<close>

record Repository =
  Owner_Login :: string
  Repository_Name :: string
  Language :: string
  License_Name :: string
  StargazersCount :: int
  SubscribersCount :: int
  WatchersCount :: int
  NetworkCount :: int
  ForksCount :: int
  OpenIssuesCount :: int
  Repository_Size :: int

record 'c githubLib =
  NewClient :: "httpClient \<Rightarrow> 'c"
  NewEnterpriseClient :: "string \<Rightarrow> string \<Rightarrow> httpClient \<Rightarrow> error + 'c"
  Repositories_Get :: "'c \<Rightarrow> call list \<Rightarrow> string \<Rightarrow> string \<Rightarrow> error + Repository"
  Search_Issues :: "'c \<Rightarrow> call list \<Rightarrow> string \<Rightarrow> error + int"

text \<open>
  Modelled from the spec: \<open>SampleList.PushSamples\<close> belongs to the package \<open>types\<close> of
  this repository, whose code is missing from the sources of the two inputs. The
  specification's sink is append-only and takes
  what it is handed; the model keeps each call of \<open>PushSamples\<close> with its three
  arguments, in the order of the calls.
\<close>

record push =
  push_prefix :: string
  push_fields :: "int gomap"
  push_tags :: "string gomap"

text \<open>
  What a tick can change outside the instance: the requests sent so far, the lines
  written by \<open>log.Println\<close> (each line the list of its printed operands, without the
  \<open>*Response\<close> operand, whose rendering belongs to the library) and the sink.
\<close>

record world =
  calls :: "call list"
  logs :: "string list list"
  sink :: "push list"

record 'c github_Instance =
  Repositories :: "string list"
  AccessToken :: string
  AdditionalFields :: "string list"
  EnterpriseBaseURL :: string
  githubClient :: "'c option"
  obfuscatedToken :: string

definition github_inputName :: string where
  "github_inputName = ''jenkins''"

definition Error_string :: "error \<Rightarrow> string" where
  "Error_string e = (case e of Error msg \<Rightarrow> msg)"

subsection \<open>Entity identifiers\<close>

text \<open>\<open>strings.Index\<close> of a one-byte separator, with the two sides of the first match.\<close>

fun cutAt :: "char \<Rightarrow> string \<Rightarrow> (string \<times> string) option" where
  "cutAt c [] = None"
| "cutAt c (x # xs) =
     (if x = c then Some ([], xs)
      else (case cutAt c xs of None \<Rightarrow> None | Some (a, b) \<Rightarrow> Some (x # a, b)))"

text \<open>
  \<open>strings.SplitN(s, sep, n)\<close> for a one-byte separator and \<open>n \<ge> 0\<close>: at most \<open>n\<close>
  pieces, the last one the unsplit rest.
\<close>

fun SplitN :: "string \<Rightarrow> char \<Rightarrow> nat \<Rightarrow> string list" where
  "SplitN s c 0 = []"
| "SplitN s c (Suc 0) = [s]"
| "SplitN s c (Suc (Suc n)) =
     (case cutAt c s of None \<Rightarrow> [s] | Some (a, rest) \<Rightarrow> a # SplitN rest c (Suc n))"

definition splitRepositoryName :: "string \<Rightarrow> error + (string \<times> string)" where
  "splitRepositoryName repositoryName =
     (let splits = SplitN repositoryName (CHR ''/'') 2 in
      if length splits \<noteq> 2
      then Inl (Error (repositoryName @ '' is not of format '' @ [CHR 0x27] @
                       ''owner/repository'' @ [CHR 0x27]))
      else Inr (splits ! 0, splits ! 1))"

subsection \<open>Tags and fields of one repository\<close>

definition getLicense :: "Repository \<Rightarrow> string" where
  "getLicense rI = (if License_Name rI \<noteq> [] then License_Name rI else ''None'')"

definition getTags :: "Repository \<Rightarrow> string gomap" where
  "getTags repositoryInfo =
     [(''owner'', Owner_Login repositoryInfo),
      (''name'', Repository_Name repositoryInfo),
      (''language'', Language repositoryInfo),
      (''license'', getLicense repositoryInfo)]"

definition getFields :: "Repository \<Rightarrow> int gomap" where
  "getFields repositoryInfo =
     [(''stars'', StargazersCount repositoryInfo),
      (''subscribers'', SubscribersCount repositoryInfo),
      (''watchers'', WatchersCount repositoryInfo),
      (''networks'', NetworkCount repositoryInfo),
      (''forks'', ForksCount repositoryInfo),
      (''open_issues'', OpenIssuesCount repositoryInfo),
      (''size'', Repository_Size repositoryInfo)]"

text \<open>
  \<open>getPullRequestFields\<close>: one search per state class, in the order open, closed. The
  first failing search logs, and returns the fields gathered so far with the error.
\<close>

fun searchClasses ::
  "'c githubLib \<Rightarrow> 'c \<Rightarrow> string \<Rightarrow> string \<Rightarrow> string list \<Rightarrow> int gomap \<Rightarrow> world
     \<Rightarrow> (int gomap \<times> error option) \<times> world" where
  "searchClasses lib client owner repo [] flds w = ((flds, None), w)"
| "searchClasses lib client owner repo (class # classes) flds w =
     (let q = ''repo:'' @ owner @ ''/'' @ repo @ '' is:pr is:'' @ class;
          answer = Search_Issues lib client (calls w) q;
          w = w\<lparr>calls := calls w @ [SearchIssues q]\<rparr>
      in case answer of
           Inl err \<Rightarrow> ((flds, Some err), w\<lparr>logs := logs w @ [[''E! github search failed'']]\<rparr>)
         | Inr found \<Rightarrow>
             searchClasses lib client owner repo classes
               (AList.update (class @ ''_pull_requests'') found flds) w)"

definition getPullRequestFields ::
  "'c githubLib \<Rightarrow> 'c \<Rightarrow> string \<Rightarrow> string \<Rightarrow> world \<Rightarrow> (int gomap \<times> error option) \<times> world" where
  "getPullRequestFields lib client owner repo w =
     searchClasses lib client owner repo [''open'', ''closed''] [] w"

subsection \<open>The task of one repository\<close>

text \<open>The loop over the additional fields: state is the field map and the world.\<close>

definition additionalField ::
  "'c githubLib \<Rightarrow> 'c \<Rightarrow> string \<Rightarrow> string \<Rightarrow> string \<Rightarrow> int gomap \<times> world \<Rightarrow> int gomap \<times> world" where
  "additionalField lib client owner repository field st =
     (let fields = fst st; w = snd st in
      if field = ''pull-requests'' then
        (case getPullRequestFields lib client owner repository w of
           ((addFields, Some err), w) \<Rightarrow>
             (fields, w\<lparr>logs := logs w @ [[''E! get PullRequestFields err'', Error_string err]]\<rparr>)
         | ((addFields, None), w) \<Rightarrow>
             (fold (\<lambda>(k, v) fields. AList.update k v fields) addFields fields, w))
      else (fields, w\<lparr>logs := logs w @ [[''E! unknown additional field'', field]]\<rparr>))"

definition repositoryTask ::
  "'c githubLib \<Rightarrow> 'c github_Instance \<Rightarrow> 'c \<Rightarrow> string \<Rightarrow> world \<Rightarrow> world" where
  "repositoryTask lib ins client repositoryName w =
     (case splitRepositoryName repositoryName of
        Inl err \<Rightarrow> w\<lparr>logs := logs w @ [[''E! splitRepositoryName'', Error_string err]]\<rparr>
      | Inr (owner, repository) \<Rightarrow>
          (let answer = Repositories_Get lib client (calls w) owner repository;
               w = w\<lparr>calls := calls w @ [GetRepository owner repository]\<rparr>
           in case answer of
                Inl err \<Rightarrow>
                  w\<lparr>logs := logs w @ [[''E! get repositoryInfo err'', Error_string err]]\<rparr>
              | Inr repositoryInfo \<Rightarrow>
                  (let tags = getTags repositoryInfo;
                       fields = getFields repositoryInfo;
                       (fields, w) = fold (additionalField lib client owner repository)
                                       (AdditionalFields ins) (fields, w)
                   in w\<lparr>sink := sink w @
                        [\<lparr>push_prefix = github_inputName, push_fields = fields,
                          push_tags = tags\<rparr>]\<rparr>)))"

subsection \<open>Creating the client\<close>

text \<open>
  The slice expression \<open>s[lo:hi]\<close> of Go: it panics unless \<open>0 \<le> lo \<le> hi \<le> len(s)\<close>.
\<close>

definition slice :: "string \<Rightarrow> int \<Rightarrow> int \<Rightarrow> string option" where
  "slice s lo hi =
     (if 0 \<le> lo \<and> lo \<le> hi \<and> hi \<le> int (length s)
      then Some (take (nat (hi - lo)) (drop (nat lo) s)) else None)"

definition newGithubClient :: "'c githubLib \<Rightarrow> 'c github_Instance \<Rightarrow> httpClient \<Rightarrow> error + 'c" where
  "newGithubClient lib ins hc =
     (if EnterpriseBaseURL ins \<noteq> []
      then NewEnterpriseClient lib (EnterpriseBaseURL ins) [] hc
      else Inr (NewClient lib hc))"

definition createGitHubClient ::
  "'c githubLib \<Rightarrow> 'c github_Instance \<Rightarrow> ('c github_Instance \<times> (error + 'c)) option" where
  "createGitHubClient lib ins =
     (let ins = ins\<lparr>obfuscatedToken := ''Unauthenticated''\<rparr> in
      if AccessToken ins \<noteq> [] then
        (case slice (AccessToken ins) 0 4 of
           None \<Rightarrow> None
         | Some first \<Rightarrow>
             (case slice (AccessToken ins) (int (length (AccessToken ins)) - 3)
                     (int (length (AccessToken ins))) of
                None \<Rightarrow> None
              | Some rest \<Rightarrow>
                  (let ins = ins\<lparr>obfuscatedToken := first @ ''...'' @ rest\<rparr>
                   in Some (ins, newGithubClient lib ins (oauthClient (AccessToken ins))))))
      else Some (ins, newGithubClient lib ins httpClient))"

subsection \<open>Gather and its goroutines\<close>

text \<open>
  One call of \<open>Gather\<close> and the goroutines it starts, as a transition system. The
  control point of the caller is \<open>Start\<close>, then \<open>Spawning rs\<close> inside the loop with
  \<open>rs\<close> still to start, then \<open>Returned\<close>; \<open>Panicked\<close> is a panic in the caller.
  \<open>g_running\<close> are the goroutines started and not yet finished, \<open>g_wg\<close> is the counter
  of the wait group.
\<close>

datatype pc = Start | Spawning "string list" | Returned | Panicked

record 'c gstate =
  g_pc :: pc
  g_ins :: "'c github_Instance"
  g_wg :: int
  g_running :: "string list"
  g_world :: world

definition init :: "'c github_Instance \<Rightarrow> world \<Rightarrow> 'c gstate" where
  "init ins w = \<lparr>g_pc = Start, g_ins = ins, g_wg = 0, g_running = [], g_world = w\<rparr>"

text \<open>\<open>wg.Add(len(ins.Repositories))\<close> and the entry into the loop.\<close>

definition enterLoop :: "'c gstate \<Rightarrow> 'c gstate" where
  "enterLoop s =
     s\<lparr>g_pc := Spawning (Repositories (g_ins s)),
       g_wg := g_wg s + int (length (Repositories (g_ins s)))\<rparr>"

text \<open>The caller's code up to the loop: the client is created when there is none.\<close>

definition Gather_enter :: "'c githubLib \<Rightarrow> 'c gstate \<Rightarrow> 'c gstate" where
  "Gather_enter lib s =
     (case githubClient (g_ins s) of
        Some client \<Rightarrow> enterLoop s
      | None \<Rightarrow>
          (case createGitHubClient lib (g_ins s) of
             None \<Rightarrow> s\<lparr>g_pc := Panicked, g_ins := (g_ins s)\<lparr>obfuscatedToken := ''Unauthenticated''\<rparr>\<rparr>
           | Some (ins, Inl err) \<Rightarrow>
               s\<lparr>g_pc := Returned, g_ins := ins,
                 g_world := (g_world s)\<lparr>logs := logs (g_world s) @
                    [[''E! failed to new githubClient:'', Error_string err]]\<rparr>\<rparr>
           | Some (ins, Inr client) \<Rightarrow>
               enterLoop (s\<lparr>g_ins := ins\<lparr>githubClient := Some client\<rparr>\<rparr>)))"

text \<open>
  The steps. The caller enters, starts one goroutine per repository, and when the
  loop is over the function body is over: it returns. A goroutine that has been
  started runs its task and calls \<open>wg.Done\<close> at any later moment.
\<close>

inductive step :: "'c githubLib \<Rightarrow> 'c gstate \<Rightarrow> 'c gstate \<Rightarrow> bool" for lib :: "'c githubLib" where
  enter: "g_pc s = Start \<Longrightarrow> step lib s (Gather_enter lib s)"
| spawn: "g_pc s = Spawning (r # rs) \<Longrightarrow>
          step lib s (s\<lparr>g_pc := Spawning rs, g_running := g_running s @ [r]\<rparr>)"
| return: "g_pc s = Spawning [] \<Longrightarrow> step lib s (s\<lparr>g_pc := Returned\<rparr>)"
| finish: "g_running s = xs @ r # ys \<Longrightarrow> githubClient (g_ins s) = Some client \<Longrightarrow>
           step lib s (s\<lparr>g_running := xs @ ys, g_wg := g_wg s - 1,
                        g_world := repositoryTask lib (g_ins s) client r (g_world s)\<rparr>)"

code_pred step .

subsection \<open>A client for the worked examples\<close>

text \<open>
  A client whose answers depend on the request alone: every repository of owner
  \<open>octocat\<close> exists; the pull requests of \<open>Spoon-Knife\<close> can be counted in both
  classes, those of \<open>Hello-World\<close> only when open, and every other search fails.
\<close>

definition lib_example :: "httpClient githubLib" where
  "lib_example =
     \<lparr>NewClient = (\<lambda>hc. hc),
      NewEnterpriseClient = (\<lambda>baseURL uploadURL hc. Inr hc),
      Repositories_Get = (\<lambda>client sent owner repo.
         if owner = ''octocat''
         then Inr \<lparr>Owner_Login = owner, Repository_Name = repo, Language = ''Go'',
                   License_Name = [], StargazersCount = 80, SubscribersCount = 5,
                   WatchersCount = 80, NetworkCount = 9, ForksCount = 9, OpenIssuesCount = 1,
                   Repository_Size = 108\<rparr>
         else Inl (Error ''404 Not Found'')),
      Search_Issues = (\<lambda>client sent q.
         if q = ''repo:octocat/Hello-World is:pr is:open'' then Inr 3
         else if q = ''repo:octocat/Spoon-Knife is:pr is:open'' then Inr 2
         else if q = ''repo:octocat/Spoon-Knife is:pr is:closed'' then Inr 7
         else Inl (Error ''403 rate limit exceeded''))\<rparr>"

definition ins_example :: "httpClient github_Instance" where
  "ins_example =
     \<lparr>Repositories = [''octocat/Hello-World''], AccessToken = [],
      AdditionalFields = [''pull-requests''], EnterpriseBaseURL = [],
      githubClient = Some httpClient, obfuscatedToken = ''Unauthenticated''\<rparr>"


definition world0 :: world where
  "world0 = \<lparr>calls = [], logs = [], sink = []\<rparr>"

section \<open>Properties of the mtail input\<close>

subsection \<open>Closed forms of the strategies\<close>

lemma NewSample_eq:
  "NewSample pre n v [tags] = \<lparr>sample_name = n, sample_value = v, sample_tags = map_of tags\<rparr>"
  by (simp add: NewSample_def)

lemma NewSample_eq2:
  "NewSample pre n v [tags, [(k, x)]] =
     \<lparr>sample_name = n, sample_value = v, sample_tags = (map_of tags)(k \<mapsto> x)\<rparr>"
  by (simp add: NewSample_def)

lemma fold_PushFront: "fold (\<lambda>x sl. PushFront (f x) sl) xs slist = rev (map f xs) @ slist"
  by (induction xs arbitrary: slist) (simp_all add: PushFront_def)

lemma fold_Cons_map: "fold (\<lambda>x. (#) (f x)) xs slist = rev (map f xs) @ slist"
  by (induction xs arbitrary: slist) simp_all

lemma getNameAndValue_Gauge:
  "Gauge m = Some g \<Longrightarrow>
   getNameAndValue m n =
     (if IsNaN (Gauge_GetValue (Some g)) then [] else [(n, Gauge_GetValue (Some g))])"
  by (simp add: getNameAndValue_def)

lemma getNameAndValue_Counter:
  "Gauge m = None \<Longrightarrow> Counter m = Some c \<Longrightarrow>
   getNameAndValue m n =
     (if IsNaN (Counter_GetValue (Some c)) then [] else [(n, Counter_GetValue (Some c))])"
  by (simp add: getNameAndValue_def)

lemma getNameAndValue_Untyped:
  "Gauge m = None \<Longrightarrow> Counter m = None \<Longrightarrow> Untyped m = Some u \<Longrightarrow>
   getNameAndValue m n =
     (if IsNaN (Untyped_GetValue (Some u)) then [] else [(n, Untyped_GetValue (Some u))])"
  by (simp add: getNameAndValue_def)

lemma getNameAndValue_none:
  "Gauge m = None \<Longrightarrow> Counter m = None \<Longrightarrow> Untyped m = None \<Longrightarrow> getNameAndValue m n = []"
  by (simp add: getNameAndValue_def)

lemma handleGaugeCounter_fields:
  "handleGaugeCounter p m tags n slist =
     rev (map (\<lambda>(metric, v).
            \<lparr>sample_name = (if HasPrefix metric (NamePrefix p) then metric else NamePrefix p @ metric),
             sample_value = v, sample_tags = map_of tags\<rparr>) (getNameAndValue m n)) @ slist"
proof -
  have body: "(\<lambda>(metric, v) sl.
             if \<not> HasPrefix metric (NamePrefix p)
             then PushFront (NewSample [] (BuildMetric (NamePrefix p) metric []) v [tags]) sl
             else PushFront (NewSample [] (BuildMetric [] metric []) v [tags]) sl)
     = (\<lambda>x sl. PushFront ((\<lambda>(metric, v).
            \<lparr>sample_name = (if HasPrefix metric (NamePrefix p) then metric else NamePrefix p @ metric),
             sample_value = v, sample_tags = map_of tags\<rparr>) x) sl)"
    by (auto simp: fun_eq_iff NewSample_eq BuildMetric_def)
  show ?thesis
    unfolding handleGaugeCounter_def body by (rule fold_PushFront)
qed


lemma HandleSummary_closed:
  "HandleSummary Sprint p m tags n slist =
     (let nm = (if HasPrefix n (NamePrefix p) then n else NamePrefix p @ n);
          cnt = \<lparr>sample_name = nm @ ''_count'',
                 sample_value = float64_of_uint64 (Summary_GetSampleCount (Summary m)),
                 sample_tags = map_of tags\<rparr>;
          sm = \<lparr>sample_name = nm @ ''_sum'', sample_value = Summary_GetSampleSum (Summary m),
                sample_tags = map_of tags\<rparr>
      in case Summary m of
           None \<Rightarrow> Panics (sm # cnt # slist)
         | Some s \<Rightarrow>
             Returns (rev (cnt # sm #
                map (\<lambda>q. \<lparr>sample_name = nm, sample_value = Quantile_GetValue q,
                          sample_tags = (map_of tags)(''quantile'' \<mapsto> Sprint (Quantile_GetQuantile q))\<rparr>)
                    (Summary_Quantile s)) @ slist))"
  by (simp add: HandleSummary_def Let_def fold_PushFront fold_Cons_map NewSample_eq NewSample_eq2
      BuildMetric_def PushFront_def split: option.split)

lemma HandleHistogram_closed:
  "HandleHistogram Sprint p m tags n slist =
     (let nm = (if HasPrefix n (NamePrefix p) then n else NamePrefix p @ n);
          cnt = \<lparr>sample_name = nm @ ''_count'',
                 sample_value = float64_of_uint64 (Histogram_GetSampleCount (Histogram m)),
                 sample_tags = map_of tags\<rparr>;
          sm = \<lparr>sample_name = nm @ ''_sum'', sample_value = Histogram_GetSampleSum (Histogram m),
                sample_tags = map_of tags\<rparr>;
          inf = \<lparr>sample_name = nm @ ''_bucket'',
                 sample_value = float64_of_uint64 (Histogram_GetSampleCount (Histogram m)),
                 sample_tags = (map_of tags)(''le'' \<mapsto> ''+Inf'')\<rparr>
      in case Histogram m of
           None \<Rightarrow> Panics (inf # sm # cnt # slist)
         | Some hg \<Rightarrow>
             Returns (rev (cnt # sm # inf #
                map (\<lambda>b. \<lparr>sample_name = nm @ ''_bucket'',
                          sample_value = float64_of_uint64 (Bucket_GetCumulativeCount b),
                          sample_tags = (map_of tags)(''le'' \<mapsto> Sprint (Bucket_GetUpperBound b))\<rparr>)
                    (Histogram_Bucket hg)) @ slist))"
  by (simp add: HandleHistogram_def Let_def fold_PushFront fold_Cons_map NewSample_eq NewSample_eq2
      BuildMetric_def PushFront_def split: option.split)


subsection \<open>The plain numeric path\<close>

text \<open>
  Claim C4. On the gauge, counter and untyped path the metric's value is that of the
  first payload present, in this order. If the value is NaN, \<open>handleGaugeCounter\<close>
  leaves the sample list as it was and nothing else happens; if it is not NaN, exactly
  one sample is pushed, and its value is the input value, bit for bit.
\<close>

theorem plain_numeric_nan_drop:
  "(Gauge m = Some g \<longrightarrow>
      (IsNaN (Gauge_GetValue (Some g)) \<longrightarrow> handleGaugeCounter p m tags n slist = slist) \<and>
      (\<not> IsNaN (Gauge_GetValue (Some g)) \<longrightarrow>
         handleGaugeCounter p m tags n slist =
           \<lparr>sample_name = (if HasPrefix n (NamePrefix p) then n else NamePrefix p @ n),
            sample_value = Gauge_GetValue (Some g), sample_tags = map_of tags\<rparr> # slist)) \<and>
   (Gauge m = None \<and> Counter m = Some c \<longrightarrow>
      (IsNaN (Counter_GetValue (Some c)) \<longrightarrow> handleGaugeCounter p m tags n slist = slist) \<and>
      (\<not> IsNaN (Counter_GetValue (Some c)) \<longrightarrow>
         handleGaugeCounter p m tags n slist =
           \<lparr>sample_name = (if HasPrefix n (NamePrefix p) then n else NamePrefix p @ n),
            sample_value = Counter_GetValue (Some c), sample_tags = map_of tags\<rparr> # slist)) \<and>
   (Gauge m = None \<and> Counter m = None \<and> Untyped m = Some u \<longrightarrow>
      (IsNaN (Untyped_GetValue (Some u)) \<longrightarrow> handleGaugeCounter p m tags n slist = slist) \<and>
      (\<not> IsNaN (Untyped_GetValue (Some u)) \<longrightarrow>
         handleGaugeCounter p m tags n slist =
           \<lparr>sample_name = (if HasPrefix n (NamePrefix p) then n else NamePrefix p @ n),
            sample_value = Untyped_GetValue (Some u), sample_tags = map_of tags\<rparr> # slist))"
  by (simp add: handleGaugeCounter_fields getNameAndValue_Gauge getNameAndValue_Counter
      getNameAndValue_Untyped)


theorem plain_numeric_nan_drop_witness:
  "handleGaugeCounter \<lparr>NamePrefix = ''mtail_'', Labels = None\<rparr>
     \<lparr>Gauge = Some \<lparr>Gauge_Value = Some 0x7FF8000000000001\<rparr>, Counter = None, Summary = None,
      Untyped = None, Histogram = None\<rparr> [(''host'', ''a'')] ''lines_total'' [] = [] \<and>
   handleGaugeCounter \<lparr>NamePrefix = ''mtail_'', Labels = None\<rparr>
     \<lparr>Gauge = None, Counter = Some \<lparr>Counter_Value = Some 0x4034000000000000\<rparr>, Summary = None,
      Untyped = None, Histogram = None\<rparr> [(''host'', ''a'')] ''lines_total'' [] =
     [\<lparr>sample_name = ''mtail_lines_total'', sample_value = 0x4034000000000000,
       sample_tags = [''host'' \<mapsto> ''a'']\<rparr>] \<and>
   handleGaugeCounter \<lparr>NamePrefix = ''mtail_'', Labels = None\<rparr>
     \<lparr>Gauge = None, Counter = None, Summary = None,
      Untyped = Some \<lparr>Untyped_Value = Some 0x400B333333333333\<rparr>, Histogram = None\<rparr>
     [] ''mtail_up'' [] =
     [\<lparr>sample_name = ''mtail_up'', sample_value = 0x400B333333333333,
       sample_tags = Map.empty\<rparr>]"
  using
    plain_numeric_nan_drop [where
      m = "\<lparr>Gauge = Some \<lparr>Gauge_Value = Some 0x7FF8000000000001\<rparr>, Counter = None,
        Summary = None, Untyped = None, Histogram = None\<rparr>"
      and g = "\<lparr>Gauge_Value = Some 0x7FF8000000000001\<rparr>"
      and p = "\<lparr>NamePrefix = ''mtail_'', Labels = None\<rparr>" and tags = "[(''host'', ''a'')]"
      and n = "''lines_total''" and slist = "[]"]
    plain_numeric_nan_drop [where
      m = "\<lparr>Gauge = None, Counter = Some \<lparr>Counter_Value = Some 0x4034000000000000\<rparr>,
        Summary = None, Untyped = None, Histogram = None\<rparr>"
      and c = "\<lparr>Counter_Value = Some 0x4034000000000000\<rparr>"
      and p = "\<lparr>NamePrefix = ''mtail_'', Labels = None\<rparr>" and tags = "[(''host'', ''a'')]"
      and n = "''lines_total''" and slist = "[]"]
    plain_numeric_nan_drop [where
      m = "\<lparr>Gauge = None, Counter = None, Summary = None,
        Untyped = Some \<lparr>Untyped_Value = Some 0x400B333333333333\<rparr>, Histogram = None\<rparr>"
      and u = "\<lparr>Untyped_Value = Some 0x400B333333333333\<rparr>"
      and p = "\<lparr>NamePrefix = ''mtail_'', Labels = None\<rparr>" and tags = "[]"
      and n = "''mtail_up''" and slist = "[]"]
  by (simp add: IsNaN_def Gauge_GetValue_def Counter_GetValue_def Untyped_GetValue_def
      HasPrefix_def)


subsection \<open>Histograms and summaries\<close>

text \<open>
  Claim C2. For a metric with a histogram payload of \<open>k\<close> declared buckets,
  \<open>HandleHistogram\<close> returns and has pushed exactly \<open>3 + k\<close> samples, in this order of
  emission: \<open>name_count\<close> with the sample count, \<open>name_sum\<close> with the sample sum,
  \<open>name_bucket\<close> tagged \<open>le = +Inf\<close> with the sample count again, then one
  \<open>name_bucket\<close> per declared bucket in upstream order, tagged \<open>le\<close> with the printed
  upper bound and valued with the bucket's cumulative count. \<open>name\<close> is the metric name
  after prefix composition. \<open>PushFront\<close> puts each sample before the earlier ones, so
  the list read from its back is the order of emission: the new part is the reverse
  of \<open>emitted\<close>.
\<close>

theorem histogram_flattening:
  "Histogram m = Some hg \<Longrightarrow>
   (let nm = (if HasPrefix n (NamePrefix p) then n else NamePrefix p @ n);
        total = float64_of_uint64 (Histogram_GetSampleCount (Some hg));
        emitted =
          [\<lparr>sample_name = nm @ ''_count'', sample_value = total, sample_tags = map_of tags\<rparr>,
           \<lparr>sample_name = nm @ ''_sum'', sample_value = Histogram_GetSampleSum (Some hg),
            sample_tags = map_of tags\<rparr>,
           \<lparr>sample_name = nm @ ''_bucket'', sample_value = total,
            sample_tags = (map_of tags)(''le'' \<mapsto> ''+Inf'')\<rparr>] @
          map (\<lambda>b. \<lparr>sample_name = nm @ ''_bucket'',
                    sample_value = float64_of_uint64 (Bucket_GetCumulativeCount b),
                    sample_tags = (map_of tags)(''le'' \<mapsto> Sprint (Bucket_GetUpperBound b))\<rparr>)
              (Histogram_Bucket hg)
    in HandleHistogram Sprint p m tags n slist = Returns (rev emitted @ slist) \<and>
       length emitted = 3 + length (Histogram_Bucket hg))"
  by (simp add: HandleHistogram_closed Let_def)

theorem histogram_flattening_witness:
  "HandleHistogram
     Sprint_example
     \<lparr>NamePrefix = [], Labels = None\<rparr>
     \<lparr>Gauge = None, Counter = None, Summary = None, Untyped = None,
      Histogram = Some \<lparr>Histogram_SampleCount = Some 20,
        Histogram_SampleSum = Some 0x400B333333333333,
        Histogram_Bucket =
          [\<lparr>Bucket_CumulativeCount = Some 5, Bucket_UpperBound = Some 0x3FB999999999999A\<rparr>,
           \<lparr>Bucket_CumulativeCount = Some 12, Bucket_UpperBound = Some 0x3FE0000000000000\<rparr>]\<rparr>\<rparr>
     [] ''request_latency'' [] =
   Returns
     [\<lparr>sample_name = ''request_latency_bucket'', sample_value = 0x4028000000000000,
       sample_tags = [''le'' \<mapsto> ''0.5'']\<rparr>,
      \<lparr>sample_name = ''request_latency_bucket'', sample_value = 0x4014000000000000,
       sample_tags = [''le'' \<mapsto> ''0.1'']\<rparr>,
      \<lparr>sample_name = ''request_latency_bucket'', sample_value = 0x4034000000000000,
       sample_tags = [''le'' \<mapsto> ''+Inf'']\<rparr>,
      \<lparr>sample_name = ''request_latency_sum'', sample_value = 0x400B333333333333,
       sample_tags = Map.empty\<rparr>,
      \<lparr>sample_name = ''request_latency_count'', sample_value = 0x4034000000000000,
       sample_tags = Map.empty\<rparr>]"
  using histogram_flattening [where
      m = "\<lparr>Gauge = None, Counter = None, Summary = None, Untyped = None,
        Histogram = Some \<lparr>Histogram_SampleCount = Some 20,
          Histogram_SampleSum = Some 0x400B333333333333,
          Histogram_Bucket =
            [\<lparr>Bucket_CumulativeCount = Some 5, Bucket_UpperBound = Some 0x3FB999999999999A\<rparr>,
             \<lparr>Bucket_CumulativeCount = Some 12, Bucket_UpperBound = Some 0x3FE0000000000000\<rparr>]\<rparr>\<rparr>"
      and hg = "\<lparr>Histogram_SampleCount = Some 20,
          Histogram_SampleSum = Some 0x400B333333333333,
          Histogram_Bucket =
            [\<lparr>Bucket_CumulativeCount = Some 5, Bucket_UpperBound = Some 0x3FB999999999999A\<rparr>,
             \<lparr>Bucket_CumulativeCount = Some 12, Bucket_UpperBound = Some 0x3FE0000000000000\<rparr>]\<rparr>"
      and p = "\<lparr>NamePrefix = [], Labels = None\<rparr>" and tags = "[]"
      and n = "''request_latency''" and slist = "[]"
      and Sprint = Sprint_example]
  by (simp add: Sprint_example_def HasPrefix_def Histogram_GetSampleCount_def Histogram_GetSampleSum_def
      Bucket_GetCumulativeCount_def Bucket_GetUpperBound_def float64_of_uint64_def
      bitlen_def upt_rec Let_def)

text \<open>
  Claim C3. For a metric with a summary payload of \<open>k\<close> declared quantiles,
  \<open>HandleSummary\<close> returns and has pushed exactly \<open>2 + k\<close> samples, in this order of
  emission: \<open>name_count\<close> with the sample count converted to a float, \<open>name_sum\<close> with
  the sample sum, then one sample \<open>name\<close> per declared quantile in upstream order, with
  the added tag \<open>quantile\<close> set to the printed quantile and with the quantile's reported
  value.
\<close>

theorem summary_flattening:
  "Summary m = Some sm \<Longrightarrow>
   (let nm = (if HasPrefix n (NamePrefix p) then n else NamePrefix p @ n);
        emitted =
          [\<lparr>sample_name = nm @ ''_count'',
            sample_value = float64_of_uint64 (Summary_GetSampleCount (Some sm)),
            sample_tags = map_of tags\<rparr>,
           \<lparr>sample_name = nm @ ''_sum'', sample_value = Summary_GetSampleSum (Some sm),
            sample_tags = map_of tags\<rparr>] @
          map (\<lambda>q. \<lparr>sample_name = nm, sample_value = Quantile_GetValue q,
                    sample_tags = (map_of tags)(''quantile'' \<mapsto> Sprint (Quantile_GetQuantile q))\<rparr>)
              (Summary_Quantile sm)
    in HandleSummary Sprint p m tags n slist = Returns (rev emitted @ slist) \<and>
       length emitted = 2 + length (Summary_Quantile sm))"
  by (simp add: HandleSummary_closed Let_def)

theorem summary_flattening_witness:
  "HandleSummary
     Sprint_example
     \<lparr>NamePrefix = ''mtail_'', Labels = None\<rparr>
     \<lparr>Gauge = None, Counter = None,
      Summary = Some \<lparr>Summary_SampleCount = Some 3, Summary_SampleSum = Some 0x400B333333333333,
        Summary_Quantile =
          [\<lparr>Quantile_Quantile = Some 0x3FE0000000000000, Quantile_Value = Some 0x3FF0000000000000\<rparr>,
           \<lparr>Quantile_Quantile = Some 0x3FEFAE147AE147AE, Quantile_Value = Some 0x4000000000000000\<rparr>]\<rparr>,
      Untyped = None, Histogram = None\<rparr>
     [(''host'', ''a'')] ''rpc_seconds'' [] =
   Returns
     [\<lparr>sample_name = ''mtail_rpc_seconds'', sample_value = 0x4000000000000000,
       sample_tags = [''host'' \<mapsto> ''a'', ''quantile'' \<mapsto> ''0.99'']\<rparr>,
      \<lparr>sample_name = ''mtail_rpc_seconds'', sample_value = 0x3FF0000000000000,
       sample_tags = [''host'' \<mapsto> ''a'', ''quantile'' \<mapsto> ''0.5'']\<rparr>,
      \<lparr>sample_name = ''mtail_rpc_seconds_sum'', sample_value = 0x400B333333333333,
       sample_tags = [''host'' \<mapsto> ''a'']\<rparr>,
      \<lparr>sample_name = ''mtail_rpc_seconds_count'', sample_value = 0x4008000000000000,
       sample_tags = [''host'' \<mapsto> ''a'']\<rparr>]"
  using summary_flattening [where
      m = "\<lparr>Gauge = None, Counter = None,
        Summary = Some \<lparr>Summary_SampleCount = Some 3, Summary_SampleSum = Some 0x400B333333333333,
          Summary_Quantile =
            [\<lparr>Quantile_Quantile = Some 0x3FE0000000000000, Quantile_Value = Some 0x3FF0000000000000\<rparr>,
             \<lparr>Quantile_Quantile = Some 0x3FEFAE147AE147AE, Quantile_Value = Some 0x4000000000000000\<rparr>]\<rparr>,
        Untyped = None, Histogram = None\<rparr>"
      and sm = "\<lparr>Summary_SampleCount = Some 3, Summary_SampleSum = Some 0x400B333333333333,
          Summary_Quantile =
            [\<lparr>Quantile_Quantile = Some 0x3FE0000000000000, Quantile_Value = Some 0x3FF0000000000000\<rparr>,
             \<lparr>Quantile_Quantile = Some 0x3FEFAE147AE147AE, Quantile_Value = Some 0x4000000000000000\<rparr>]\<rparr>"
      and p = "\<lparr>NamePrefix = ''mtail_'', Labels = None\<rparr>" and tags = "[(''host'', ''a'')]"
      and n = "''rpc_seconds''" and slist = "[]"
      and Sprint = Sprint_example]
  by (simp add: Sprint_example_def HasPrefix_def Summary_GetSampleCount_def Summary_GetSampleSum_def
      Quantile_GetValue_def Quantile_GetQuantile_def float64_of_uint64_def
      bitlen_def upt_rec Let_def)

subsection \<open>Name composition\<close>

lemma handleGaugeCounter_names:
  "s \<in> set (handleGaugeCounter p m tags n []) \<Longrightarrow>
   sample_name s = (if HasPrefix n (NamePrefix p) then n else NamePrefix p @ n)"
  by (auto simp: handleGaugeCounter_fields getNameAndValue_def split: if_splits)

lemma HasPrefix_composed:
  "HasPrefix (if HasPrefix n pre then n else pre @ n) pre"
  by (simp add: HasPrefix_def)

text \<open>
  Claim C5. Every sample of the plain numeric path is named by the metric name itself
  when that name starts with the configured prefix, and by prefix followed by name
  when it does not. The emitted name starts with the prefix, and composing it again
  (handing it back as a metric name) leaves it unchanged: the prefix is never applied
  twice. The summary and histogram strategies build their names on the same
  composed name.
\<close>

theorem name_prefix_composition:
  "(\<forall>s \<in> set (handleGaugeCounter p m tags n []).
      sample_name s = (if HasPrefix n (NamePrefix p) then n else NamePrefix p @ n) \<and>
      HasPrefix (sample_name s) (NamePrefix p) \<and>
      (\<forall>s' \<in> set (handleGaugeCounter p m' tags' (sample_name s) []).
         sample_name s' = sample_name s)) \<and>
   (\<forall>s \<in> set (state_of (HandleSummary Sprint p m tags n [])).
      (let nm = (if HasPrefix n (NamePrefix p) then n else NamePrefix p @ n)
       in sample_name s \<in> {nm @ ''_count'', nm @ ''_sum'', nm})) \<and>
   (\<forall>s \<in> set (state_of (HandleHistogram Sprint p m tags n [])).
      (let nm = (if HasPrefix n (NamePrefix p) then n else NamePrefix p @ n)
       in sample_name s \<in> {nm @ ''_count'', nm @ ''_sum'', nm @ ''_bucket''}))"
proof (intro conjI ballI)
  fix s assume s: "s \<in> set (handleGaugeCounter p m tags n [])"
  show nm: "sample_name s = (if HasPrefix n (NamePrefix p) then n else NamePrefix p @ n)"
    using s by (rule handleGaugeCounter_names)
  show pre: "HasPrefix (sample_name s) (NamePrefix p)"
    unfolding nm by (rule HasPrefix_composed)
  fix s' assume "s' \<in> set (handleGaugeCounter p m' tags' (sample_name s) [])"
  from handleGaugeCounter_names [OF this] pre show "sample_name s' = sample_name s"
    by simp
next
  fix s assume "s \<in> set (state_of (HandleSummary Sprint p m tags n []))"
  then show "let nm = (if HasPrefix n (NamePrefix p) then n else NamePrefix p @ n)
       in sample_name s \<in> {nm @ ''_count'', nm @ ''_sum'', nm}"
    by (auto simp: HandleSummary_closed Let_def split: option.splits)
next
  fix s assume "s \<in> set (state_of (HandleHistogram Sprint p m tags n []))"
  then show "let nm = (if HasPrefix n (NamePrefix p) then n else NamePrefix p @ n)
       in sample_name s \<in> {nm @ ''_count'', nm @ ''_sum'', nm @ ''_bucket''}"
    by (auto simp: HandleHistogram_closed Let_def split: option.splits)
qed


theorem name_prefix_composition_witness:
  "map sample_name (handleGaugeCounter \<lparr>NamePrefix = ''mtail_'', Labels = None\<rparr>
     \<lparr>Gauge = Some \<lparr>Gauge_Value = Some 0x4034000000000000\<rparr>, Counter = None, Summary = None,
      Untyped = None, Histogram = None\<rparr> [] ''lines_total'' []) = [''mtail_lines_total''] \<and>
   map sample_name (handleGaugeCounter \<lparr>NamePrefix = ''mtail_'', Labels = None\<rparr>
     \<lparr>Gauge = Some \<lparr>Gauge_Value = Some 0x4034000000000000\<rparr>, Counter = None, Summary = None,
      Untyped = None, Histogram = None\<rparr> [] ''mtail_lines_total'' []) = [''mtail_lines_total''] \<and>
   map sample_name (state_of (HandleSummary Sprint_example \<lparr>NamePrefix = ''mtail_'', Labels = None\<rparr>
     \<lparr>Gauge = Some \<lparr>Gauge_Value = Some 0x4034000000000000\<rparr>, Counter = None, Summary = None,
      Untyped = None, Histogram = None\<rparr> [] ''lines_total'' [])) =
     [''mtail_lines_total_sum'', ''mtail_lines_total_count''] \<and>
   map sample_name (state_of (HandleHistogram Sprint_example \<lparr>NamePrefix = ''mtail_'', Labels = None\<rparr>
     \<lparr>Gauge = Some \<lparr>Gauge_Value = Some 0x4034000000000000\<rparr>, Counter = None, Summary = None,
      Untyped = None, Histogram = None\<rparr> [] ''lines_total'' [])) =
     [''mtail_lines_total_bucket'', ''mtail_lines_total_sum'', ''mtail_lines_total_count'']"
  using name_prefix_composition [where
      p = "\<lparr>NamePrefix = ''mtail_'', Labels = None\<rparr>"
      and m = "\<lparr>Gauge = Some \<lparr>Gauge_Value = Some 0x4034000000000000\<rparr>, Counter = None,
        Summary = None, Untyped = None, Histogram = None\<rparr>"
      and m' = "\<lparr>Gauge = Some \<lparr>Gauge_Value = Some 0x4034000000000000\<rparr>, Counter = None,
        Summary = None, Untyped = None, Histogram = None\<rparr>"
      and tags = "[]" and tags' = "[]" and n = "''lines_total''" and Sprint = Sprint_example]
  by (simp add: handleGaugeCounter_fields getNameAndValue_def Gauge_GetValue_def IsNaN_def
      HasPrefix_def HandleSummary_closed HandleHistogram_closed Let_def)


subsection \<open>The classifier\<close>

text \<open>
  Claim C6, as the code has it. Every metric goes to exactly one strategy, chosen by
  the kind of its family alone: the summary strategy for \<open>SUMMARY\<close>, the histogram
  strategy for \<open>HISTOGRAM\<close>, and \<open>handleGaugeCounter\<close> for every other number, known or
  unknown, where the call always returns (no error, no panic). On that path one sample
  with the raw value is pushed when the metric carries a gauge, counter or untyped
  value (the first present, in this order) that is not NaN; when it carries none of
  the three, or a NaN, nothing is pushed.
\<close>

theorem classifier_dispatch:
  "(t = MetricType_SUMMARY \<longrightarrow>
      dispatch Sprint ins t m tags n slist = HandleSummary Sprint ins m tags n slist) \<and>
   (t = MetricType_HISTOGRAM \<longrightarrow>
      dispatch Sprint ins t m tags n slist = HandleHistogram Sprint ins m tags n slist) \<and>
   (t \<noteq> MetricType_SUMMARY \<and> t \<noteq> MetricType_HISTOGRAM \<longrightarrow>
      dispatch Sprint ins t m tags n slist = Returns (handleGaugeCounter ins m tags n slist) \<and>
      (Gauge m = Some g \<longrightarrow>
         handleGaugeCounter ins m tags n slist =
           (if IsNaN (Gauge_GetValue (Some g)) then slist
            else \<lparr>sample_name = (if HasPrefix n (NamePrefix ins) then n else NamePrefix ins @ n),
                  sample_value = Gauge_GetValue (Some g), sample_tags = map_of tags\<rparr> # slist)) \<and>
      (Gauge m = None \<and> Counter m = Some c \<longrightarrow>
         handleGaugeCounter ins m tags n slist =
           (if IsNaN (Counter_GetValue (Some c)) then slist
            else \<lparr>sample_name = (if HasPrefix n (NamePrefix ins) then n else NamePrefix ins @ n),
                  sample_value = Counter_GetValue (Some c), sample_tags = map_of tags\<rparr> # slist)) \<and>
      (Gauge m = None \<and> Counter m = None \<and> Untyped m = Some u \<longrightarrow>
         handleGaugeCounter ins m tags n slist =
           (if IsNaN (Untyped_GetValue (Some u)) then slist
            else \<lparr>sample_name = (if HasPrefix n (NamePrefix ins) then n else NamePrefix ins @ n),
                  sample_value = Untyped_GetValue (Some u), sample_tags = map_of tags\<rparr> # slist)) \<and>
      (Gauge m = None \<and> Counter m = None \<and> Untyped m = None \<longrightarrow>
         handleGaugeCounter ins m tags n slist = slist))"
  by (simp add: dispatch_def MetricType_SUMMARY_def MetricType_HISTOGRAM_def
      handleGaugeCounter_fields getNameAndValue_Gauge getNameAndValue_Counter
      getNameAndValue_Untyped getNameAndValue_none)

theorem classifier_dispatch_witness:
  "dispatch Sprint_example \<lparr>NamePrefix = [], Labels = None\<rparr> 7
     \<lparr>Gauge = Some \<lparr>Gauge_Value = Some 0x4034000000000000\<rparr>, Counter = None, Summary = None,
      Untyped = None, Histogram = None\<rparr> [] ''queue_depth'' [] =
   Returns [\<lparr>sample_name = ''queue_depth'', sample_value = 0x4034000000000000,
             sample_tags = Map.empty\<rparr>] \<and>
   dispatch Sprint_example \<lparr>NamePrefix = [], Labels = None\<rparr> MetricType_SUMMARY
     \<lparr>Gauge = None, Counter = None,
      Summary = Some \<lparr>Summary_SampleCount = Some 3, Summary_SampleSum = Some 0x400B333333333333,
        Summary_Quantile = []\<rparr>, Untyped = None, Histogram = None\<rparr> [] ''rpc_seconds'' [] =
   Returns [\<lparr>sample_name = ''rpc_seconds_sum'', sample_value = 0x400B333333333333,
             sample_tags = Map.empty\<rparr>,
            \<lparr>sample_name = ''rpc_seconds_count'', sample_value = 0x4008000000000000,
             sample_tags = Map.empty\<rparr>] \<and>
   dispatch Sprint_example \<lparr>NamePrefix = [], Labels = None\<rparr> MetricType_HISTOGRAM
     \<lparr>Gauge = None, Counter = None, Summary = None, Untyped = None,
      Histogram = Some \<lparr>Histogram_SampleCount = Some 3,
        Histogram_SampleSum = Some 0x400B333333333333, Histogram_Bucket = []\<rparr>\<rparr>
     [] ''rpc_seconds'' [] =
   Returns [\<lparr>sample_name = ''rpc_seconds_bucket'', sample_value = 0x4008000000000000,
             sample_tags = [''le'' \<mapsto> ''+Inf'']\<rparr>,
            \<lparr>sample_name = ''rpc_seconds_sum'', sample_value = 0x400B333333333333,
             sample_tags = Map.empty\<rparr>,
            \<lparr>sample_name = ''rpc_seconds_count'', sample_value = 0x4008000000000000,
             sample_tags = Map.empty\<rparr>] \<and>
   dispatch Sprint_example \<lparr>NamePrefix = [], Labels = None\<rparr> MetricType_COUNTER
     \<lparr>Gauge = None, Counter = Some \<lparr>Counter_Value = Some 0x4014000000000000\<rparr>, Summary = None,
      Untyped = None, Histogram = None\<rparr> [] ''lines_total'' [] =
   Returns [\<lparr>sample_name = ''lines_total'', sample_value = 0x4014000000000000,
             sample_tags = Map.empty\<rparr>] \<and>
   dispatch Sprint_example \<lparr>NamePrefix = [], Labels = None\<rparr> MetricType_UNTYPED
     \<lparr>Gauge = None, Counter = None, Summary = None,
      Untyped = Some \<lparr>Untyped_Value = Some 0x7FF8000000000001\<rparr>, Histogram = None\<rparr>
     [] ''up'' [] = Returns [] \<and>
   dispatch Sprint_example \<lparr>NamePrefix = [], Labels = None\<rparr> MetricType_GAUGE
     \<lparr>Gauge = None, Counter = None, Summary = None, Untyped = None, Histogram = None\<rparr>
     [] ''up'' [] = Returns []"
  using
    classifier_dispatch [where t = MetricType_COUNTER and Sprint = Sprint_example
      and ins = "\<lparr>NamePrefix = [], Labels = None\<rparr>"
      and m = "\<lparr>Gauge = None, Counter = Some \<lparr>Counter_Value = Some 0x4014000000000000\<rparr>,
        Summary = None, Untyped = None, Histogram = None\<rparr>"
      and c = "\<lparr>Counter_Value = Some 0x4014000000000000\<rparr>"
      and tags = "[]" and n = "''lines_total''" and slist = "[]"]
    classifier_dispatch [where t = MetricType_UNTYPED and Sprint = Sprint_example
      and ins = "\<lparr>NamePrefix = [], Labels = None\<rparr>"
      and m = "\<lparr>Gauge = None, Counter = None, Summary = None,
        Untyped = Some \<lparr>Untyped_Value = Some 0x7FF8000000000001\<rparr>, Histogram = None\<rparr>"
      and u = "\<lparr>Untyped_Value = Some 0x7FF8000000000001\<rparr>"
      and tags = "[]" and n = "''up''" and slist = "[]"]
    classifier_dispatch [where t = MetricType_GAUGE and Sprint = Sprint_example
      and ins = "\<lparr>NamePrefix = [], Labels = None\<rparr>"
      and m = "\<lparr>Gauge = None, Counter = None, Summary = None, Untyped = None,
        Histogram = None\<rparr>"
      and tags = "[]" and n = "''up''" and slist = "[]"]
    classifier_dispatch [where t = 7 and Sprint = Sprint_example
      and ins = "\<lparr>NamePrefix = [], Labels = None\<rparr>"
      and m = "\<lparr>Gauge = Some \<lparr>Gauge_Value = Some 0x4034000000000000\<rparr>, Counter = None,
        Summary = None, Untyped = None, Histogram = None\<rparr>"
      and g = "\<lparr>Gauge_Value = Some 0x4034000000000000\<rparr>"
      and tags = "[]" and n = "''queue_depth''" and slist = "[]"]
    classifier_dispatch [where t = MetricType_SUMMARY and Sprint = Sprint_example
      and ins = "\<lparr>NamePrefix = [], Labels = None\<rparr>"
      and m = "\<lparr>Gauge = None, Counter = None,
        Summary = Some \<lparr>Summary_SampleCount = Some 3, Summary_SampleSum = Some 0x400B333333333333,
          Summary_Quantile = []\<rparr>, Untyped = None, Histogram = None\<rparr>"
      and tags = "[]" and n = "''rpc_seconds''" and slist = "[]"]
    classifier_dispatch [where t = MetricType_HISTOGRAM and Sprint = Sprint_example
      and ins = "\<lparr>NamePrefix = [], Labels = None\<rparr>"
      and m = "\<lparr>Gauge = None, Counter = None, Summary = None, Untyped = None,
        Histogram = Some \<lparr>Histogram_SampleCount = Some 3,
          Histogram_SampleSum = Some 0x400B333333333333, Histogram_Bucket = []\<rparr>\<rparr>"
      and tags = "[]" and n = "''rpc_seconds''" and slist = "[]"]
  by (simp add: MetricType_SUMMARY_def MetricType_HISTOGRAM_def MetricType_COUNTER_def
      MetricType_UNTYPED_def MetricType_GAUGE_def IsNaN_def Gauge_GetValue_def
      Counter_GetValue_def Untyped_GetValue_def HasPrefix_def HandleSummary_closed HandleHistogram_closed Let_def
      Summary_GetSampleCount_def Summary_GetSampleSum_def Histogram_GetSampleCount_def
      Histogram_GetSampleSum_def float64_of_uint64_def bitlen_def upt_rec)

text \<open>
  The claim as the specification words it, that the fallback always still emits the raw
  numeric value, fails: a family of the unknown kind 5 (the gauge histogram of later
  versions of the client model), whose metric carries a histogram and no gauge,
  counter or untyped value, goes to the fallback and leaves no sample at all, in the
  classifier and in the whole of \<open>Gather\<close>; and a metric of the unknown kind 7 whose gauge
  is NaN leaves none either.
\<close>

theorem classifier_fallback_counterexample:
  "dispatch Sprint_example \<lparr>NamePrefix = [], Labels = None\<rparr> 5
     \<lparr>Gauge = None, Counter = None, Summary = None, Untyped = None,
      Histogram = Some \<lparr>Histogram_SampleCount = Some 20,
        Histogram_SampleSum = Some 0x400B333333333333,
        Histogram_Bucket =
          [\<lparr>Bucket_CumulativeCount = Some 5, Bucket_UpperBound = Some 0x3FB999999999999A\<rparr>]\<rparr>\<rparr>
     [] ''request_latency'' [] = Returns [] \<and>
   mtail_Gather Sprint_example \<lparr>NamePrefix = [], Labels = None\<rparr>
     (Inr [\<lparr>Name = Some ''request_latency'', Type = Some 5,
            Metric = [\<lparr>Gauge = None, Counter = None, Summary = None, Untyped = None,
              Histogram = Some \<lparr>Histogram_SampleCount = Some 20,
                Histogram_SampleSum = Some 0x400B333333333333,
                Histogram_Bucket =
                  [\<lparr>Bucket_CumulativeCount = Some 5,
                    Bucket_UpperBound = Some 0x3FB999999999999A\<rparr>]\<rparr>\<rparr>]\<rparr>])
     ([], []) = Returns ([[]], []) \<and>
   dispatch Sprint_example \<lparr>NamePrefix = [], Labels = None\<rparr> 7
     \<lparr>Gauge = Some \<lparr>Gauge_Value = Some 0x7FF8000000000001\<rparr>, Counter = None, Summary = None,
      Untyped = None, Histogram = None\<rparr> [] ''queue_depth'' [] = Returns []"
  by (simp add: dispatch_def MetricType_SUMMARY_def MetricType_HISTOGRAM_def
      handleGaugeCounter_def getNameAndValue_def mtail_Gather_def gather_metric_def
      GetType_def GetName_def makeLabels_def deref_def Let_def Gauge_GetValue_def IsNaN_def)

subsection \<open>The tag map of a flattening call\<close>

lemma update_fresh: "k \<notin> fst ` set al \<Longrightarrow> AList.update k v al = al @ [(k, v)]"
  by (induction al) auto

lemma fold_update_distinct:
  "distinct (map fst (acc @ xs)) \<Longrightarrow> fold (\<lambda>(k, v). AList.update k v) xs acc = acc @ xs"
proof (induction xs arbitrary: acc)
  case Nil
  then show ?case by simp
next
  case (Cons x xs)
  obtain k v where x: "x = (k, v)" by (cases x)
  from Cons.prems have fresh: "k \<notin> fst ` set acc" by (auto simp: x)
  from Cons.prems have "distinct (map fst ((acc @ [(k, v)]) @ xs))" by (simp add: x)
  from Cons.IH [OF this] show ?case by (simp add: x update_fresh [OF fresh])
qed

lemma fold_mapassign_last:
  "fold (\<lambda>(key, v) h. mapassign h (length h0) key v) xs (h0 @ [acc]) =
   h0 @ [fold (\<lambda>(k, v). AList.update k v) xs acc]"
  by (induction xs arbitrary: acc) (auto simp: mapassign_def)

lemma makeLabels_closed:
  assumes "distinct (map fst (deref h (Labels p)))"
    and "case Labels p of None \<Rightarrow> True | Some i \<Rightarrow> i < length h"
  shows "makeLabels p m h = (length h, h @ [deref h (Labels p)])"
proof -
  have d: "deref (h @ [[]]) (Labels p) = deref h (Labels p)"
    using assms(2) by (auto simp: deref_def nth_append split: option.splits)
  show ?thesis
    using assms(1)
    by (simp add: makeLabels_def Let_def d fold_mapassign_last fold_update_distinct)
qed


text \<open>
  Claim C9. Let the instance's stored tags be a map (unique keys) that is allocated in
  the heap, or the nil map. Then \<open>makeLabels\<close> returns the address of a new map object:
  it is not the address of the stored tags nor of any object that existed; it holds
  exactly the stored pairs; and no existing object changed. Writing any key of the
  returned map afterwards changes neither the stored tags nor any other earlier object,
  and the next call of \<open>makeLabels\<close>, for any other metric, again returns a new object
  with exactly the stored pairs.
\<close>

theorem makeLabels_fresh_copy:
  assumes uniq: "distinct (map fst (deref h (Labels p)))"
    and alloc: "case Labels p of None \<Rightarrow> True | Some i \<Rightarrow> i < length h"
  shows "(let (a, h') = makeLabels p m h in
            a = length h \<and> Labels p \<noteq> Some a \<and>
            deref h' (Some a) = deref h (Labels p) \<and>
            (\<forall>b < length h. deref h' (Some b) = deref h (Some b)) \<and>
            (\<forall>k v. deref (mapassign h' a k v) (Labels p) = deref h (Labels p) \<and>
                   (\<forall>b < length h. deref (mapassign h' a k v) (Some b) = deref h (Some b)) \<and>
                   (let (a2, h2) = makeLabels p m2 (mapassign h' a k v) in
                      a2 \<noteq> a \<and> deref h2 (Some a2) = deref h (Labels p))))"
proof -
  let ?l = "deref h (Labels p)"
  have ml: "makeLabels p m h = (length h, h @ [?l])"
    using uniq alloc by (rule makeLabels_closed)
  have neq: "Labels p \<noteq> Some (length h)"
    using alloc by (auto split: option.splits)
  have old: "deref (h @ [x]) (Some b) = deref h (Some b)" if "b < length h" for b x
    using that by (simp add: deref_def nth_append)
  have oldL: "deref (h @ [x]) (Labels p) = ?l" for x
    using alloc by (auto simp: deref_def nth_append split: option.splits)
  have upd: "mapassign (h @ [?l]) (length h) k v = h @ [AList.update k v ?l]" for k v
    by (simp add: mapassign_def)
  have again: "makeLabels p m2 (h @ [x]) = (Suc (length h), (h @ [x]) @ [?l])" for x
  proof -
    have "distinct (map fst (deref (h @ [x]) (Labels p)))" using uniq by (simp add: oldL)
    moreover have "case Labels p of None \<Rightarrow> True | Some i \<Rightarrow> i < length (h @ [x])"
      using alloc by (auto split: option.splits)
    ultimately have "makeLabels p m2 (h @ [x]) = (length (h @ [x]), (h @ [x]) @ [deref (h @ [x]) (Labels p)])"
      by (rule makeLabels_closed)
    then show ?thesis by (simp add: oldL)
  qed
  have new: "deref (xs @ [x]) (Some (length xs)) = x" for xs :: heap and x
    by (simp add: deref_def)
  show ?thesis
    unfolding ml
    apply (simp only: Let_def prod.case upd again)
    apply (intro conjI allI impI)
          apply (rule refl)
         apply (rule neq)
        apply (rule new)
       apply (erule old)
      apply (rule oldL)
     apply (erule old)
    apply simp
    using new [of "h @ [AList.update k v ?l]" ?l for k v] apply simp
    done
qed


theorem makeLabels_fresh_copy_witness:
  "makeLabels \<lparr>NamePrefix = [], Labels = Some 0\<rparr>
     \<lparr>Gauge = None, Counter = None, Summary = None, Untyped = None, Histogram = None\<rparr>
     [[(''region'', ''eu''), (''env'', ''prod'')]] =
     (1, [[(''region'', ''eu''), (''env'', ''prod'')], [(''region'', ''eu''), (''env'', ''prod'')]]) \<and>
   deref (mapassign [[(''region'', ''eu''), (''env'', ''prod'')],
                     [(''region'', ''eu''), (''env'', ''prod'')]] 1 ''le'' ''+Inf'') (Some 0) =
     [(''region'', ''eu''), (''env'', ''prod'')] \<and>
   deref (mapassign [[(''region'', ''eu''), (''env'', ''prod'')],
                     [(''region'', ''eu''), (''env'', ''prod'')]] 1 ''le'' ''+Inf'') (Some 1) =
     [(''region'', ''eu''), (''env'', ''prod''), (''le'', ''+Inf'')]"
  using makeLabels_fresh_copy [where p = "\<lparr>NamePrefix = [], Labels = Some 0\<rparr>"
      and h = "[[(''region'', ''eu''), (''env'', ''prod'')]]"
      and m = "\<lparr>Gauge = None, Counter = None, Summary = None, Untyped = None, Histogram = None\<rparr>"
      and ?m2.0 = "\<lparr>Gauge = None, Counter = None, Summary = None, Untyped = None, Histogram = None\<rparr>"]
  by (simp add: makeLabels_def deref_def mapassign_def Let_def)


section \<open>Properties of the github input\<close>

subsection \<open>Entity identifiers\<close>

lemma cutAt_None: "cutAt c s = None \<longleftrightarrow> c \<notin> set s"
  by (induction s) (auto split: option.splits)

lemma cutAt_Some: "cutAt c s = Some (a, b) \<Longrightarrow> s = a @ c # b \<and> c \<notin> set a"
  by (induction s arbitrary: a) (auto split: if_splits option.splits)

lemma SplitN_2: "SplitN s c 2 = (case cutAt c s of None \<Rightarrow> [s] | Some (a, b) \<Rightarrow> [a, b])"
  by (simp add: numeral_2_eq_2 split: option.splits)

lemma splitRepositoryName_closed:
  "splitRepositoryName r =
     (case cutAt (CHR ''/'') r of
        None \<Rightarrow> Inl (Error (r @ '' is not of format '' @ [CHR 0x27] @ ''owner/repository'' @ [CHR 0x27]))
      | Some (a, b) \<Rightarrow> Inr (a, b))"
  by (simp add: splitRepositoryName_def SplitN_2 split: option.splits)

lemma split_example: "splitRepositoryName ''octocat/Hello-World'' = Inr (''octocat'', ''Hello-World'')"
  by (simp add: splitRepositoryName_closed)

lemma split_bad:
  "CHR ''/'' \<notin> set r \<Longrightarrow>
   splitRepositoryName r =
     Inl (Error (r @ '' is not of format '' @ [CHR 0x27] @ ''owner/repository'' @ [CHR 0x27]))"
  using cutAt_None [of "CHR ''/''" r] by (simp add: splitRepositoryName_closed)

lemma split_good:
  "splitRepositoryName r = Inr (a, b) \<Longrightarrow> r = a @ ''/'' @ b \<and> CHR ''/'' \<notin> set a"
  by (auto simp: splitRepositoryName_closed split: option.splits dest: cutAt_Some)

lemma split_has_delim:
  "CHR ''/'' \<in> set r \<Longrightarrow> \<exists>a b. splitRepositoryName r = Inr (a, b)"
  using cutAt_None [of "CHR ''/''" r] by (auto simp: splitRepositoryName_closed split: option.splits)


text \<open>
  Claim C7. The identifier \<open>octocat/Hello-World\<close> splits into owner \<open>octocat\<close> and
  resource \<open>Hello-World\<close>. Whenever an identifier parses, it is the owner, the
  delimiter and the resource, and the owner holds no delimiter; every identifier
  with a delimiter parses. An identifier without a delimiter gives the parse error,
  and its task does nothing but report it: one log line, no request sent, nothing
  pushed to the sink. When that task finishes, the goroutines of the other entities
  are still running and the caller is where it was: nothing else is aborted.
\<close>

theorem malformed_identifier_skipped:
  "splitRepositoryName ''octocat/Hello-World'' = Inr (''octocat'', ''Hello-World'') \<and>
   (splitRepositoryName r = Inr (owner, repo) \<longrightarrow> r = owner @ ''/'' @ repo \<and> CHR ''/'' \<notin> set owner) \<and>
   (CHR ''/'' \<in> set r \<longrightarrow> (\<exists>a b. splitRepositoryName r = Inr (a, b))) \<and>
   (CHR ''/'' \<notin> set r \<longrightarrow>
      splitRepositoryName r =
        Inl (Error (r @ '' is not of format '' @ [CHR 0x27] @ ''owner/repository'' @ [CHR 0x27])) \<and>
      repositoryTask lib ins client r w =
        w\<lparr>logs := logs w @ [[''E! splitRepositoryName'',
            r @ '' is not of format '' @ [CHR 0x27] @ ''owner/repository'' @ [CHR 0x27]]]\<rparr> \<and>
      (g_running s = xs @ r # ys \<and> githubClient (g_ins s) = Some client \<longrightarrow>
         step lib s (s\<lparr>g_running := xs @ ys, g_wg := g_wg s - 1,
            g_world := (g_world s)\<lparr>logs := logs (g_world s) @ [[''E! splitRepositoryName'',
              r @ '' is not of format '' @ [CHR 0x27] @ ''owner/repository'' @ [CHR 0x27]]]\<rparr>\<rparr>)))"
proof (intro conjI impI)
  show "splitRepositoryName ''octocat/Hello-World'' = Inr (''octocat'', ''Hello-World'')"
    by (rule split_example)
next
  assume "splitRepositoryName r = Inr (owner, repo)"
  from split_good [OF this] show "r = owner @ ''/'' @ repo" and "CHR ''/'' \<notin> set owner"
    by simp_all
next
  assume "CHR ''/'' \<in> set r"
  then show "\<exists>a b. splitRepositoryName r = Inr (a, b)" by (rule split_has_delim)
next
  assume bad: "CHR ''/'' \<notin> set r"
  show sp: "splitRepositoryName r =
        Inl (Error (r @ '' is not of format '' @ [CHR 0x27] @ ''owner/repository'' @ [CHR 0x27]))"
    using bad by (rule split_bad)
  show task: "repositoryTask lib ins client r w =
        w\<lparr>logs := logs w @ [[''E! splitRepositoryName'',
            r @ '' is not of format '' @ [CHR 0x27] @ ''owner/repository'' @ [CHR 0x27]]]\<rparr>"
    for ins w
    by (simp add: repositoryTask_def sp Error_string_def)
  assume "g_running s = xs @ r # ys \<and> githubClient (g_ins s) = Some client"
  then have "step lib s (s\<lparr>g_running := xs @ ys, g_wg := g_wg s - 1,
                        g_world := repositoryTask lib (g_ins s) client r (g_world s)\<rparr>)"
    by (auto intro: step.finish)
  then show "step lib s (s\<lparr>g_running := xs @ ys, g_wg := g_wg s - 1,
            g_world := (g_world s)\<lparr>logs := logs (g_world s) @ [[''E! splitRepositoryName'',
              r @ '' is not of format '' @ [CHR 0x27] @ ''owner/repository'' @ [CHR 0x27]]]\<rparr>\<rparr>)"
    by (simp add: task)
qed


theorem malformed_identifier_skipped_witness:
  "splitRepositoryName ''badid'' =
     Inl (Error (''badid is not of format '' @ [CHR 0x27] @ ''owner/repository'' @ [CHR 0x27])) \<and>
   repositoryTask lib_example ins_example httpClient ''badid'' world0 =
     \<lparr>calls = [],
      logs = [[''E! splitRepositoryName'',
               ''badid is not of format '' @ [CHR 0x27] @ ''owner/repository'' @ [CHR 0x27]]],
      sink = []\<rparr> \<and>
   step lib_example
     \<lparr>g_pc = Spawning [], g_ins = ins_example, g_wg = 2,
      g_running = [''badid'', ''octocat/Hello-World''], g_world = world0\<rparr>
     \<lparr>g_pc = Spawning [], g_ins = ins_example, g_wg = 1,
      g_running = [''octocat/Hello-World''],
      g_world = \<lparr>calls = [],
        logs = [[''E! splitRepositoryName'',
                 ''badid is not of format '' @ [CHR 0x27] @ ''owner/repository'' @ [CHR 0x27]]],
        sink = []\<rparr>\<rparr> \<and>
   splitRepositoryName ''a/b/c'' = Inr (''a'', ''b/c'')"
  using
    malformed_identifier_skipped [where r = "''badid''" and lib = lib_example
      and ins = ins_example and client = httpClient and w = world0 and xs = "[]"
      and ys = "[''octocat/Hello-World'']"
      and s = "\<lparr>g_pc = Spawning [], g_ins = ins_example, g_wg = 2,
        g_running = [''badid'', ''octocat/Hello-World''], g_world = world0\<rparr>"]
    malformed_identifier_skipped [where r = "''a/b/c''" and owner = "''a''" and repo = "''b/c''"]
  by (simp add: world0_def ins_example_def splitRepositoryName_closed)

subsection \<open>Additional fields\<close>










subsection \<open>Creating the client\<close>

lemma slice_first4: "slice s 0 4 = (if 4 \<le> length s then Some (take 4 s) else None)"
  by (simp add: slice_def)

lemma slice_last3:
  "slice s (int (length s) - 3) (int (length s)) =
     (if 3 \<le> length s then Some (drop (length s - 3) s) else None)"
  by (auto simp: slice_def nat_diff_distrib')

lemma createGitHubClient_closed:
  "createGitHubClient lib ins =
     (if AccessToken ins = []
      then Some (ins\<lparr>obfuscatedToken := ''Unauthenticated''\<rparr>,
                 newGithubClient lib (ins\<lparr>obfuscatedToken := ''Unauthenticated''\<rparr>) httpClient)
      else if length (AccessToken ins) < 4 then None
      else Some (ins\<lparr>obfuscatedToken := take 4 (AccessToken ins) @ ''...'' @
                        drop (length (AccessToken ins) - 3) (AccessToken ins)\<rparr>,
                 newGithubClient lib
                   (ins\<lparr>obfuscatedToken := take 4 (AccessToken ins) @ ''...'' @
                        drop (length (AccessToken ins) - 3) (AccessToken ins)\<rparr>)
                   (oauthClient (AccessToken ins))))"
  by (simp add: createGitHubClient_def Let_def slice_first4 slice_last3)


text \<open>
  Claim C10. With an access token that is not empty and shorter than four bytes, the
  slice \<open>[0:4]\<close> is out of range: \<open>createGitHubClient\<close> panics, and so does a
  \<open>Gather\<close> that has no client yet, in its only possible step. With a token of four
  bytes or more both slices are in range, and the client is created with the
  obfuscated token made of the first four bytes, three dots and the last three bytes.
\<close>

theorem short_token_panics:
  "(AccessToken ins \<noteq> [] \<and> length (AccessToken ins) < 4 \<longrightarrow>
      slice (AccessToken ins) 0 4 = None \<and>
      createGitHubClient lib ins = None \<and>
      (githubClient ins = None \<longrightarrow>
         g_pc (Gather_enter lib (init ins w)) = Panicked \<and>
         (\<forall>s'. step lib (init ins w) s' \<longrightarrow> g_pc s' = Panicked))) \<and>
   (4 \<le> length (AccessToken ins) \<longrightarrow>
      slice (AccessToken ins) 0 4 = Some (take 4 (AccessToken ins)) \<and>
      slice (AccessToken ins) (int (length (AccessToken ins)) - 3) (int (length (AccessToken ins))) =
        Some (drop (length (AccessToken ins) - 3) (AccessToken ins)) \<and>
      createGitHubClient lib ins =
        Some (ins\<lparr>obfuscatedToken := take 4 (AccessToken ins) @ ''...'' @
                        drop (length (AccessToken ins) - 3) (AccessToken ins)\<rparr>,
              newGithubClient lib
                (ins\<lparr>obfuscatedToken := take 4 (AccessToken ins) @ ''...'' @
                        drop (length (AccessToken ins) - 3) (AccessToken ins)\<rparr>)
                (oauthClient (AccessToken ins))))"
proof (intro conjI impI allI)
  assume short: "AccessToken ins \<noteq> [] \<and> length (AccessToken ins) < 4"
  then show "slice (AccessToken ins) 0 4 = None" by (simp add: slice_first4)
  from short show none: "createGitHubClient lib ins = None"
    by (simp add: createGitHubClient_closed)
  assume nil: "githubClient ins = None"
  show enter: "g_pc (Gather_enter lib (init ins w)) = Panicked"
    by (simp add: Gather_enter_def init_def nil none)
  fix s' assume "step lib (init ins w) s'"
  then show "g_pc s' = Panicked"
    by (cases rule: step.cases) (simp_all add: enter, simp_all add: init_def)
next
  assume long: "4 \<le> length (AccessToken ins)"
  then show "slice (AccessToken ins) 0 4 = Some (take 4 (AccessToken ins))"
    by (simp add: slice_first4)
  from long show "slice (AccessToken ins) (int (length (AccessToken ins)) - 3)
        (int (length (AccessToken ins))) = Some (drop (length (AccessToken ins) - 3) (AccessToken ins))"
    by (simp add: slice_last3)
  from long show "createGitHubClient lib ins =
        Some (ins\<lparr>obfuscatedToken := take 4 (AccessToken ins) @ ''...'' @
                        drop (length (AccessToken ins) - 3) (AccessToken ins)\<rparr>,
              newGithubClient lib
                (ins\<lparr>obfuscatedToken := take 4 (AccessToken ins) @ ''...'' @
                        drop (length (AccessToken ins) - 3) (AccessToken ins)\<rparr>)
                (oauthClient (AccessToken ins)))"
    by (auto simp: createGitHubClient_closed)
qed

theorem short_token_panics_witness:
  "createGitHubClient lib_example (ins_example\<lparr>AccessToken := ''abc'', githubClient := None\<rparr>) = None \<and>
   g_pc (Gather_enter lib_example
           (init (ins_example\<lparr>AccessToken := ''abc'', githubClient := None\<rparr>) world0)) = Panicked \<and>
   createGitHubClient lib_example
       (ins_example\<lparr>AccessToken := ''ghp_0123456789'', githubClient := None\<rparr>) =
     Some (ins_example\<lparr>AccessToken := ''ghp_0123456789'', githubClient := None,
                        obfuscatedToken := ''ghp_...789''\<rparr>,
           Inr (oauthClient ''ghp_0123456789''))"
  using
    short_token_panics [where ins = "ins_example\<lparr>AccessToken := ''abc'', githubClient := None\<rparr>"
      and lib = lib_example and w = world0]
    short_token_panics [where
      ins = "ins_example\<lparr>AccessToken := ''ghp_0123456789'', githubClient := None\<rparr>"
      and lib = lib_example and w = world0]
  by (simp add: ins_example_def newGithubClient_def lib_example_def)


subsection \<open>The caller does not wait\<close>

lemma spawn_all:
  "g_pc s = Spawning rs \<Longrightarrow>
   (step lib)\<^sup>*\<^sup>* s (s\<lparr>g_pc := Spawning [], g_running := g_running s @ rs\<rparr>)"
proof (induction rs arbitrary: s)
  case Nil
  then have "s\<lparr>g_pc := Spawning [], g_running := g_running s @ []\<rparr> = s" by simp
  then show ?case by simp
next
  case (Cons r rs)
  let ?s1 = "s\<lparr>g_pc := Spawning rs, g_running := g_running s @ [r]\<rparr>"
  have "step lib s ?s1" using Cons.prems by (rule step.spawn)
  moreover have "(step lib)\<^sup>*\<^sup>* ?s1 (?s1\<lparr>g_pc := Spawning [], g_running := g_running ?s1 @ rs\<rparr>)"
    by (rule Cons.IH) simp
  ultimately show ?case by (simp add: converse_rtranclp_into_rtranclp)
qed

lemma Gather_returns_with_all_running:
  assumes "githubClient ins = Some client"
  shows "(step lib)\<^sup>*\<^sup>* (init ins w)
     \<lparr>g_pc = Returned, g_ins = ins, g_wg = int (length (Repositories ins)),
      g_running = Repositories ins, g_world = w\<rparr>"
proof -
  let ?s1 = "Gather_enter lib (init ins w)"
  have s1: "?s1 = \<lparr>g_pc = Spawning (Repositories ins), g_ins = ins,
      g_wg = int (length (Repositories ins)), g_running = [], g_world = w\<rparr>"
    using assms by (simp add: Gather_enter_def enterLoop_def init_def)
  let ?s2 = "?s1\<lparr>g_pc := Spawning [], g_running := g_running ?s1 @ Repositories ins\<rparr>"
  have "step lib (init ins w) ?s1" by (rule step.enter) (simp add: init_def)
  moreover have "(step lib)\<^sup>*\<^sup>* ?s1 ?s2" by (rule spawn_all) (simp add: s1)
  moreover have "step lib ?s2 (?s2\<lparr>g_pc := Returned\<rparr>)" by (rule step.return) simp
  ultimately have "(step lib)\<^sup>*\<^sup>* (init ins w) (?s2\<lparr>g_pc := Returned\<rparr>)"
    by (meson converse_rtranclp_into_rtranclp rtranclp.rtrancl_into_rtrancl)
  then show ?thesis by (simp add: s1)
qed


text \<open>
  Claim C1 does not hold of the code. The wait group is created, \<open>Add\<close> is called with
  the number of repositories and every goroutine calls \<open>Done\<close>, but \<open>Gather\<close> never
  calls \<open>Wait\<close>: after the loop the function ends. With one repository configured
  and the client in place, the caller reaches \<open>Returned\<close> while the goroutine of
  that repository is still running, the counter of the wait group is still 1 and
  nothing has been pushed.
\<close>

theorem Gather_returns_before_tasks_finish:
  "(step lib_example)\<^sup>*\<^sup>* (init ins_example world0)
     \<lparr>g_pc = Returned, g_ins = ins_example, g_wg = 1,
      g_running = [''octocat/Hello-World''], g_world = world0\<rparr>"
  using Gather_returns_with_all_running [where ins = ins_example and lib = lib_example
      and client = httpClient and w = world0]
  by (simp add: ins_example_def)


end
